theory Spec2Isabelle
  imports Complex_Main
begin

section \<open>Scalars\<close>

text \<open>
  The SO(3) headers are generic over a floating-point scalar type \<open>S\<close>; the sources
  instantiate the classes for \<open>double\<close>. A scalar of the embedding is a finite value,
  an infinity or NaN. The result of an arithmetic operation on finite values is the exact
  real result passed through \<open>fl\<close>, which maps it to an infinity where binary64
  rounding overflows (magnitude at least \<open>2^1024 - 2^970\<close>) and to zero where it
  underflows (magnitude at most \<open>2^-1075\<close>). Two things are not modelled: the rounding of
  an in-range result to 53 significant bits, and the sign of zero. Operations on
  infinities and NaN follow IEEE 754.
\<close>

datatype scalar = Fin real | PInf | NInf | NaN

definition overflow_bound :: real where
  "overflow_bound = 2 ^ 1024 - 2 ^ 970"

definition underflow_bound :: real where
  "underflow_bound = 1 / 2 ^ 1075"

definition fl :: "real \<Rightarrow> scalar" where
  "fl r = (if overflow_bound \<le> r then PInf
           else if r \<le> - overflow_bound then NInf
           else if \<bar>r\<bar> \<le> underflow_bound then Fin 0
           else Fin r)"

fun fneg :: "scalar \<Rightarrow> scalar" where
  "fneg (Fin a) = Fin (- a)"
| "fneg PInf = NInf"
| "fneg NInf = PInf"
| "fneg NaN = NaN"

fun fadd :: "scalar \<Rightarrow> scalar \<Rightarrow> scalar" where
  "fadd (Fin a) (Fin b) = fl (a + b)"
| "fadd NaN _ = NaN"
| "fadd _ NaN = NaN"
| "fadd PInf NInf = NaN"
| "fadd NInf PInf = NaN"
| "fadd PInf _ = PInf"
| "fadd _ PInf = PInf"
| "fadd NInf _ = NInf"
| "fadd _ NInf = NInf"

definition fsub :: "scalar \<Rightarrow> scalar \<Rightarrow> scalar" where
  "fsub x y = fadd x (fneg y)"

fun fmul :: "scalar \<Rightarrow> scalar \<Rightarrow> scalar" where
  "fmul (Fin a) (Fin b) = fl (a * b)"
| "fmul NaN _ = NaN"
| "fmul _ NaN = NaN"
| "fmul PInf (Fin b) = (if b = 0 then NaN else if 0 < b then PInf else NInf)"
| "fmul NInf (Fin b) = (if b = 0 then NaN else if 0 < b then NInf else PInf)"
| "fmul (Fin a) PInf = (if a = 0 then NaN else if 0 < a then PInf else NInf)"
| "fmul (Fin a) NInf = (if a = 0 then NaN else if 0 < a then NInf else PInf)"
| "fmul PInf PInf = PInf"
| "fmul PInf NInf = NInf"
| "fmul NInf PInf = NInf"
| "fmul NInf NInf = PInf"

fun fdiv :: "scalar \<Rightarrow> scalar \<Rightarrow> scalar" where
  "fdiv (Fin a) (Fin b) =
     (if b = 0 then (if a = 0 then NaN else if 0 < a then PInf else NInf)
      else fl (a / b))"
| "fdiv NaN _ = NaN"
| "fdiv _ NaN = NaN"
| "fdiv (Fin a) PInf = Fin 0"
| "fdiv (Fin a) NInf = Fin 0"
| "fdiv PInf (Fin b) = (if 0 \<le> b then PInf else NInf)"
| "fdiv NInf (Fin b) = (if 0 \<le> b then NInf else PInf)"
| "fdiv _ _ = NaN"

fun fsqrt :: "scalar \<Rightarrow> scalar" where
  "fsqrt (Fin a) = (if a < 0 then NaN else fl (sqrt a))"
| "fsqrt PInf = PInf"
| "fsqrt _ = NaN"

fun fsin :: "scalar \<Rightarrow> scalar" where
  "fsin (Fin a) = fl (sin a)"
| "fsin _ = NaN"

fun fcos :: "scalar \<Rightarrow> scalar" where
  "fcos (Fin a) = fl (cos a)"
| "fcos _ = NaN"

fun fabs :: "scalar \<Rightarrow> scalar" where
  "fabs (Fin a) = Fin \<bar>a\<bar>"
| "fabs PInf = PInf"
| "fabs NInf = PInf"
| "fabs NaN = NaN"

fun fless :: "scalar \<Rightarrow> scalar \<Rightarrow> bool" where
  "fless (Fin a) (Fin b) \<longleftrightarrow> a < b"
| "fless NaN _ \<longleftrightarrow> False"
| "fless _ NaN \<longleftrightarrow> False"
| "fless PInf _ \<longleftrightarrow> False"
| "fless _ PInf \<longleftrightarrow> True"
| "fless NInf NInf \<longleftrightarrow> False"
| "fless NInf _ \<longleftrightarrow> True"
| "fless _ NInf \<longleftrightarrow> False"

fun feq :: "scalar \<Rightarrow> scalar \<Rightarrow> bool" where
  "feq (Fin a) (Fin b) \<longleftrightarrow> a = b"
| "feq PInf PInf \<longleftrightarrow> True"
| "feq NInf NInf \<longleftrightarrow> True"
| "feq _ _ \<longleftrightarrow> False"

definition fle :: "scalar \<Rightarrow> scalar \<Rightarrow> bool" where
  "fle x y \<longleftrightarrow> fless x y \<or> feq x y"

definition fmin :: "scalar \<Rightarrow> scalar \<Rightarrow> scalar" where
  \<comment> \<open>\<open>std::min(x, y)\<close>: \<open>(y < x) ? y : x\<close>\<close>
  "fmin x y = (if fless y x then y else x)"


fun closed :: "scalar \<Rightarrow> bool" where
  \<comment> \<open>a scalar that \<open>fl\<close> leaves as it is; every result of an operation is one\<close>
  "closed (Fin r) \<longleftrightarrow> fl r = Fin r"
| "closed _ \<longleftrightarrow> True"

section \<open>Vectors and matrices\<close>

text \<open>
  \<open>Eigen::Matrix<S, 3, 1>\<close> is \<open>vec3\<close>, \<open>Eigen::Matrix<S, 3, 3>\<close> is \<open>mat3\<close> (the
  selector \<open>mIJ\<close> is the entry \<open>(I, J)\<close>). Sums over the coefficients are taken from
  left to right.
\<close>

datatype vec3 = Vec3 (vx: scalar) (vy: scalar) (vz: scalar)

datatype mat3 = Mat3
  (m00: scalar) (m01: scalar) (m02: scalar)
  (m10: scalar) (m11: scalar) (m12: scalar)
  (m20: scalar) (m21: scalar) (m22: scalar)

definition squaredNorm :: "vec3 \<Rightarrow> scalar" where
  "squaredNorm v =
     fadd (fadd (fmul (vx v) (vx v)) (fmul (vy v) (vy v))) (fmul (vz v) (vz v))"

definition norm3 :: "vec3 \<Rightarrow> scalar" where
  \<comment> \<open>\<open>data.norm()\<close>, the square root of the squared norm\<close>
  "norm3 v = fsqrt (squaredNorm v)"

definition vec_scale :: "scalar \<Rightarrow> vec3 \<Rightarrow> vec3" where
  \<comment> \<open>scalar * vector\<close>
  "vec_scale s v = Vec3 (fmul s (vx v)) (fmul s (vy v)) (fmul s (vz v))"

definition vec_div :: "vec3 \<Rightarrow> scalar \<Rightarrow> vec3" where
  \<comment> \<open>vector / scalar\<close>
  "vec_div v s = Vec3 (fdiv (vx v) s) (fdiv (vy v) s) (fdiv (vz v) s)"

definition vec_neg :: "vec3 \<Rightarrow> vec3" where
  "vec_neg v = Vec3 (fneg (vx v)) (fneg (vy v)) (fneg (vz v))"

definition vec_sub :: "vec3 \<Rightarrow> vec3 \<Rightarrow> vec3" where
  "vec_sub a b = Vec3 (fsub (vx a) (vx b)) (fsub (vy a) (vy b)) (fsub (vz a) (vz b))"

definition vec_eq :: "vec3 \<Rightarrow> vec3 \<Rightarrow> bool" where
  \<comment> \<open>\<open>a == b\<close> on matrices: every pair of coefficients compares equal\<close>
  "vec_eq a b \<longleftrightarrow> feq (vx a) (vx b) \<and> feq (vy a) (vy b) \<and> feq (vz a) (vz b)"

definition vec_Zero :: vec3 where
  "vec_Zero = Vec3 (Fin 0) (Fin 0) (Fin 0)"

definition UnitX :: vec3 where
  "UnitX = Vec3 (Fin 1) (Fin 0) (Fin 0)"

definition mat_Identity :: mat3 where
  "mat_Identity = Mat3 (Fin 1) (Fin 0) (Fin 0)  (Fin 0) (Fin 1) (Fin 0)  (Fin 0) (Fin 0) (Fin 1)"


definition mat_sub :: "mat3 \<Rightarrow> mat3 \<Rightarrow> mat3" where
  "mat_sub a b = Mat3
     (fsub (m00 a) (m00 b)) (fsub (m01 a) (m01 b)) (fsub (m02 a) (m02 b))
     (fsub (m10 a) (m10 b)) (fsub (m11 a) (m11 b)) (fsub (m12 a) (m12 b))
     (fsub (m20 a) (m20 b)) (fsub (m21 a) (m21 b)) (fsub (m22 a) (m22 b))"


definition dot3 :: "scalar \<Rightarrow> scalar \<Rightarrow> scalar \<Rightarrow> scalar \<Rightarrow> scalar \<Rightarrow> scalar \<Rightarrow> scalar" where
  \<comment> \<open>a row times a column\<close>
  "dot3 a0 a1 a2 b0 b1 b2 = fadd (fadd (fmul a0 b0) (fmul a1 b1)) (fmul a2 b2)"

definition mat_mul :: "mat3 \<Rightarrow> mat3 \<Rightarrow> mat3" where
  \<comment> \<open>the matrix product \<open>data * otherData\<close>\<close>
  "mat_mul a b = Mat3
     (dot3 (m00 a) (m01 a) (m02 a) (m00 b) (m10 b) (m20 b))
     (dot3 (m00 a) (m01 a) (m02 a) (m01 b) (m11 b) (m21 b))
     (dot3 (m00 a) (m01 a) (m02 a) (m02 b) (m12 b) (m22 b))
     (dot3 (m10 a) (m11 a) (m12 a) (m00 b) (m10 b) (m20 b))
     (dot3 (m10 a) (m11 a) (m12 a) (m01 b) (m11 b) (m21 b))
     (dot3 (m10 a) (m11 a) (m12 a) (m02 b) (m12 b) (m22 b))
     (dot3 (m20 a) (m21 a) (m22 a) (m00 b) (m10 b) (m20 b))
     (dot3 (m20 a) (m21 a) (m22 a) (m01 b) (m11 b) (m21 b))
     (dot3 (m20 a) (m21 a) (m22 a) (m02 b) (m12 b) (m22 b))"





section \<open>The exponential map\<close>

text \<open>
  \<open>so3_operations::exp\<close> (SO3Operations.hpp). The tolerance \<open>constants<S>::eps()\<close> is
  declared in Constants.hpp, which is not among the sources; it is the parameter \<open>eps\<close>.
  The name carries a suffix because \<open>exp\<close> is the exponential function of HOL.
\<close>

definition exp_so3 :: "scalar \<Rightarrow> vec3 \<Rightarrow> mat3" where
  "exp_so3 eps w =
    (let s2_0 = fmul (vx w) (vx w); s2_1 = fmul (vy w) (vy w); s2_2 = fmul (vz w) (vz w);
         s3_0 = fmul (vx w) (vy w); s3_1 = fmul (vy w) (vz w); s3_2 = fmul (vz w) (vx w);
         theta = fsqrt (fadd (fadd s2_0 s2_1) s2_2);
         cos_t = fcos theta;
         alpha = (if fless eps theta then fdiv (fsin theta) theta
                  else fsub (Fin 1) (fdiv (fmul theta theta) (Fin 6)));
         beta = (if fless eps theta then fdiv (fdiv (fsub (Fin 1) cos_t) theta) theta
                 else fsub (Fin (1 / 2)) (fdiv (fmul theta theta) (Fin 24)))
     in Mat3
       (fadd (fmul beta s2_0) cos_t)
       (fsub (fmul beta s3_0) (fmul alpha (vz w)))
       (fadd (fmul beta s3_2) (fmul alpha (vy w)))
       (fadd (fmul beta s3_0) (fmul alpha (vz w)))
       (fadd (fmul beta s2_1) cos_t)
       (fsub (fmul beta s3_1) (fmul alpha (vx w)))
       (fsub (fmul beta s3_2) (fmul alpha (vy w)))
       (fadd (fmul beta s3_1) (fmul alpha (vx w)))
       (fadd (fmul beta s2_2) cos_t))"




section \<open>Ranges\<close>

text \<open>
  Predicates and bounds used to state the ranges in which a computation neither
  overflows nor underflows.
\<close>

fun nonneg :: "scalar \<Rightarrow> bool" where
  "nonneg (Fin t) \<longleftrightarrow> 0 \<le> t"
| "nonneg PInf \<longleftrightarrow> True"
| "nonneg _ \<longleftrightarrow> False"





fun at_least_tiny :: "scalar \<Rightarrow> bool" where
  \<comment> \<open>positive and not below the smallest positive value of the format, \<open>2^-1074\<close>\<close>
  "at_least_tiny (Fin r) \<longleftrightarrow> 1 / 2 ^ 1074 \<le> r"
| "at_least_tiny PInf \<longleftrightarrow> True"
| "at_least_tiny _ \<longleftrightarrow> False"


section \<open>Representations and raw data\<close>

text \<open>
  The four representation tags, and the raw data \<open>traits<SO3<S, Rep>>::RepData\<close> stored
  for each: a 3x3 matrix, an \<open>Eigen::AngleAxis\<close> (angle and axis), an
  \<open>Eigen::Quaternion\<close> and a 3-vector. The C++ templates are instantiated per pair of
  tags; the embedding keeps one tagged value and dispatches on its constructor.
\<close>

datatype rep = RotationMatrixRep | AxisAngleRep | QuaternionRep | RotationVectorRep

record angle_axis =
  angle :: scalar
  axis :: vec3

datatype quaternion = Quaternion (qw: scalar) (qx: scalar) (qy: scalar) (qz: scalar)

datatype rep_data =
    MatData mat3
  | AaData angle_axis
  | QuatData quaternion
  | VecData vec3

fun rep_of :: "rep_data \<Rightarrow> rep" where
  "rep_of (MatData _) = RotationMatrixRep"
| "rep_of (AaData _) = AxisAngleRep"
| "rep_of (QuatData _) = QuaternionRep"
| "rep_of (VecData _) = RotationVectorRep"

fun IsCoordinates :: "rep \<Rightarrow> bool" where
  "IsCoordinates RotationVectorRep = True"
| "IsCoordinates _ = False"

text \<open>
  The conversions between Eigen's own rotation types (its converting constructors) and
  its products of rotation types belong to the Eigen library, not to these sources. They
  are parameters of the embedding, so every statement below holds for any implementation
  of them.
\<close>

record eigen =
  AngleAxis_toRotationMatrix :: "angle_axis \<Rightarrow> mat3"
  Quaternion_toRotationMatrix :: "quaternion \<Rightarrow> mat3"
  AngleAxis_fromRotationMatrix :: "mat3 \<Rightarrow> angle_axis"
  Quaternion_fromRotationMatrix :: "mat3 \<Rightarrow> quaternion"
  AngleAxis_fromQuaternion :: "quaternion \<Rightarrow> angle_axis"
  Quaternion_fromAngleAxis :: "angle_axis \<Rightarrow> quaternion"
  Quaternion_product :: "quaternion \<Rightarrow> quaternion \<Rightarrow> quaternion"
  rotation_product :: "rep \<Rightarrow> rep_data \<Rightarrow> rep_data \<Rightarrow> rep_data"
    \<comment> \<open>\<open>SO3A(a * b)\<close> for two Eigen rotation types, as raw data of the given tag\<close>

section \<open>The logarithm map\<close>

definition log_so3 :: "eigen \<Rightarrow> mat3 \<Rightarrow> vec3" where
  \<comment> \<open>\<open>Eigen::AngleAxis<S> aa(R); return aa.angle()*aa.axis();\<close>\<close>
  "log_so3 E R = (let aa = AngleAxis_fromRotationMatrix E R in vec_scale (angle aa) (axis aa))"

section \<open>Conversion through the canonical representation\<close>

fun rep_convert_to_canonical_impl :: "eigen \<Rightarrow> scalar \<Rightarrow> rep_data \<Rightarrow> mat3" where
  "rep_convert_to_canonical_impl E eps (MatData data) = data"
| "rep_convert_to_canonical_impl E eps (VecData data) = exp_so3 eps data"
| "rep_convert_to_canonical_impl E eps (AaData data) = AngleAxis_toRotationMatrix E data"
| "rep_convert_to_canonical_impl E eps (QuatData data) = Quaternion_toRotationMatrix E data"

fun rep_convert_from_canonical_impl :: "eigen \<Rightarrow> rep \<Rightarrow> mat3 \<Rightarrow> rep_data" where
  "rep_convert_from_canonical_impl E RotationMatrixRep canonicalData = MatData canonicalData"
| "rep_convert_from_canonical_impl E RotationVectorRep canonicalData =
     VecData (log_so3 E canonicalData)"
| "rep_convert_from_canonical_impl E AxisAngleRep canonicalData =
     AaData (AngleAxis_fromRotationMatrix E canonicalData)"
| "rep_convert_from_canonical_impl E QuaternionRep canonicalData =
     QuatData (Quaternion_fromRotationMatrix E canonicalData)"

section \<open>Direct conversions\<close>

definition rep_convert_RotationVector_AxisAngle :: "vec3 \<Rightarrow> angle_axis" where
  \<comment> \<open>\<open>rep_convert_impl<S, RotationVectorRep, AxisAngleRep>::run\<close>\<close>
  "rep_convert_RotationVector_AxisAngle data =
     (let norm = norm3 data
      in if fless (Fin 0) norm then \<lparr>angle = norm, axis = vec_div data norm\<rparr>
         else \<lparr>angle = Fin 0, axis = UnitX\<rparr>)"

definition rep_convert_AxisAngle_RotationVector :: "angle_axis \<Rightarrow> vec3" where
  \<comment> \<open>\<open>rep_convert_impl<S, AxisAngleRep, RotationVectorRep>::run\<close>\<close>
  "rep_convert_AxisAngle_RotationVector data = vec_scale (angle data) (axis data)"

text \<open>
  The explicit specialisations of \<open>rep_convert_impl\<close> for two different
  representations. The specialisations for RotationVector to Quaternion and for
  Quaternion to RotationVector are commented out in the source, so those pairs have no
  entry.
\<close>

fun rep_convert_specialised :: "eigen \<Rightarrow> rep \<Rightarrow> rep_data \<Rightarrow> rep_data option" where
  "rep_convert_specialised E AxisAngleRep (VecData data) =
     Some (AaData (rep_convert_RotationVector_AxisAngle data))"
| "rep_convert_specialised E RotationVectorRep (AaData data) =
     Some (VecData (rep_convert_AxisAngle_RotationVector data))"
| "rep_convert_specialised E QuaternionRep (AaData data) =
     Some (QuatData (Quaternion_fromAngleAxis E data))"
| "rep_convert_specialised E AxisAngleRep (QuatData data) =
     Some (AaData (AngleAxis_fromQuaternion E data))"
| "rep_convert_specialised E _ _ = None"

definition rep_convert_impl :: "eigen \<Rightarrow> scalar \<Rightarrow> rep \<Rightarrow> rep_data \<Rightarrow> rep_data" where
  \<comment> \<open>same representation: the data itself; a specialised pair: its direct formula;
      any other pair: the primary template, from -> canonical -> to\<close>
  "rep_convert_impl E eps RepTo data =
     (if rep_of data = RepTo then data
      else case rep_convert_specialised E RepTo data of
             Some r \<Rightarrow> r
           | None \<Rightarrow> rep_convert_from_canonical_impl E RepTo
                       (rep_convert_to_canonical_impl E eps data))"

definition rep_convert_RotationVector_Quaternion :: "eigen \<Rightarrow> scalar \<Rightarrow> vec3 \<Rightarrow> quaternion" where
  \<comment> \<open>\<open>rep_convert_impl<S, RotationVectorRep, QuaternionRep>::run\<close>, an instance of the
      primary template, with its result type\<close>
  "rep_convert_RotationVector_Quaternion E eps data =
     Quaternion_fromRotationMatrix E (exp_so3 eps data)"

section \<open>Approximate equality\<close>

text \<open>
  \<open>isApprox\<close> of Eigen. For matrices and vectors:
  \<open>(a - b).cwiseAbs2().sum() <= prec * prec * min(a.cwiseAbs2().sum(), b.cwiseAbs2().sum())\<close>;
  for scalars: \<open>abs(x - y) <= min(abs(x), abs(y)) * prec\<close>; for an AngleAxis: the axes and
  the angles are both approximately equal; for a quaternion: the four coefficients
  \<open>(x, y, z, w)\<close> as a vector.
\<close>

definition mat_squaredNorm :: "mat3 \<Rightarrow> scalar" where
  "mat_squaredNorm a =
     fadd (fadd (fadd (fadd (fadd (fadd (fadd (fadd
       (fmul (m00 a) (m00 a)) (fmul (m10 a) (m10 a))) (fmul (m20 a) (m20 a)))
       (fmul (m01 a) (m01 a))) (fmul (m11 a) (m11 a))) (fmul (m21 a) (m21 a)))
       (fmul (m02 a) (m02 a))) (fmul (m12 a) (m12 a))) (fmul (m22 a) (m22 a))"

definition mat_isApprox :: "mat3 \<Rightarrow> mat3 \<Rightarrow> scalar \<Rightarrow> bool" where
  "mat_isApprox a b prec \<longleftrightarrow>
     fle (mat_squaredNorm (mat_sub a b))
       (fmul (fmul prec prec) (fmin (mat_squaredNorm a) (mat_squaredNorm b)))"

definition vec_isApprox :: "vec3 \<Rightarrow> vec3 \<Rightarrow> scalar \<Rightarrow> bool" where
  "vec_isApprox a b prec \<longleftrightarrow>
     fle (squaredNorm (vec_sub a b))
       (fmul (fmul prec prec) (fmin (squaredNorm a) (squaredNorm b)))"

definition scalar_isApprox :: "scalar \<Rightarrow> scalar \<Rightarrow> scalar \<Rightarrow> bool" where
  "scalar_isApprox x y prec \<longleftrightarrow> fle (fabs (fsub x y)) (fmul (fmin (fabs x) (fabs y)) prec)"

definition aa_isApprox :: "angle_axis \<Rightarrow> angle_axis \<Rightarrow> scalar \<Rightarrow> bool" where
  "aa_isApprox a b prec \<longleftrightarrow>
     vec_isApprox (axis a) (axis b) prec \<and> scalar_isApprox (angle a) (angle b) prec"

definition quat_squaredNorm :: "quaternion \<Rightarrow> scalar" where
  "quat_squaredNorm q =
     fadd (fadd (fadd (fmul (qx q) (qx q)) (fmul (qy q) (qy q))) (fmul (qz q) (qz q)))
       (fmul (qw q) (qw q))"

definition quat_isApprox :: "quaternion \<Rightarrow> quaternion \<Rightarrow> scalar \<Rightarrow> bool" where
  "quat_isApprox a b prec \<longleftrightarrow>
     fle (quat_squaredNorm
            (Quaternion (fsub (qw a) (qw b)) (fsub (qx a) (qx b)) (fsub (qy a) (qy b))
               (fsub (qz a) (qz b))))
       (fmul (fmul prec prec) (fmin (quat_squaredNorm a) (quat_squaredNorm b)))"

fun rep_is_approx_impl :: "eigen \<Rightarrow> scalar \<Rightarrow> rep_data \<Rightarrow> rep_data \<Rightarrow> scalar \<Rightarrow> bool" where
  "rep_is_approx_impl E eps (MatData dataA) (MatData dataB) tol = mat_isApprox dataA dataB tol"
| "rep_is_approx_impl E eps (AaData dataA) (AaData dataB) tol = aa_isApprox dataA dataB tol"
| "rep_is_approx_impl E eps (QuatData dataA) (QuatData dataB) tol = quat_isApprox dataA dataB tol"
| "rep_is_approx_impl E eps (VecData dataA) (VecData dataB) tol = vec_isApprox dataA dataB tol"
| "rep_is_approx_impl E eps dataA dataB tol =
     mat_isApprox (rep_convert_to_canonical_impl E eps dataA)
                  (rep_convert_to_canonical_impl E eps dataB) tol"

definition group_is_approx_impl :: "eigen \<Rightarrow> scalar \<Rightarrow> rep_data \<Rightarrow> rep_data \<Rightarrow> scalar \<Rightarrow> bool" where
  "group_is_approx_impl E eps Ra Rb tol = rep_is_approx_impl E eps Ra Rb tol"

section \<open>Multiplication\<close>

definition rep_canonical_multiplication_impl :: "mat3 \<Rightarrow> mat3 \<Rightarrow> mat3" where
  \<comment> \<open>the primary template, for the default canonical representation\<close>
  "rep_canonical_multiplication_impl data otherData = mat_mul data otherData"

definition rep_multiplication_impl_RotationVector ::
    "eigen \<Rightarrow> scalar \<Rightarrow> vec3 \<Rightarrow> vec3 \<Rightarrow> quaternion" where
  \<comment> \<open>\<open>rep_multiplication_impl<S, RotationVectorRep, RotationVectorRep>::run\<close>: both
      operands are converted to quaternions and the quaternions are multiplied; the product
      is returned as a quaternion\<close>
  "rep_multiplication_impl_RotationVector E eps dataA dataB =
     Quaternion_product E (rep_convert_RotationVector_Quaternion E eps dataA)
       (rep_convert_RotationVector_Quaternion E eps dataB)"

fun is_eigen_rotation_data :: "rep_data \<Rightarrow> bool" where
  \<comment> \<open>\<open>RepData\<close> is \<open>Eigen::Matrix<S, 3, 3>\<close>, \<open>Eigen::AngleAxis<S>\<close> or \<open>Eigen::Quaternion<S>\<close>\<close>
  "is_eigen_rotation_data (MatData _) = True"
| "is_eigen_rotation_data (AaData _) = True"
| "is_eigen_rotation_data (QuatData _) = True"
| "is_eigen_rotation_data (VecData _) = False"

definition group_multiplication_impl :: "eigen \<Rightarrow> scalar \<Rightarrow> rep_data \<Rightarrow> rep_data \<Rightarrow> rep_data" where
  \<comment> \<open>the specialisation for two Eigen rotation types multiplies the raw data; the generic
      version goes through the canonical representation\<close>
  "group_multiplication_impl E eps Ra Rb =
     (if is_eigen_rotation_data Ra \<and> is_eigen_rotation_data Rb
      then rotation_product E (rep_of Ra) Ra Rb
      else rep_convert_from_canonical_impl E (rep_of Ra)
             (rep_canonical_multiplication_impl
                (rep_convert_to_canonical_impl E eps Ra)
                (rep_convert_to_canonical_impl E eps Rb)))"

definition SO3_multiply :: "eigen \<Rightarrow> scalar \<Rightarrow> rep_data \<Rightarrow> rep_data \<Rightarrow> rep_data" where
  \<comment> \<open>Modelled from the spec: \<open>operator*\<close> of the orientation classes is inherited from
      SO3Base.hpp, which is not among the sources. Section 4.6 of the specification: two
      operands that share a group-native representation (matrix, quaternion, axis-angle)
      are multiplied directly in it; otherwise, also when either side is a rotation vector,
      both operands are converted to canonical, multiplied there, and the product is
      converted back to the representation of the left operand.\<close>
  "SO3_multiply E eps A B =
     (if rep_of A = rep_of B \<and> \<not> IsCoordinates (rep_of A)
      then rotation_product E (rep_of A) A B
      else rep_convert_from_canonical_impl E (rep_of A)
             (rep_canonical_multiplication_impl
                (rep_convert_to_canonical_impl E eps A)
                (rep_convert_to_canonical_impl E eps B)))"

section \<open>The orientation classes\<close>

text \<open>
  \<open>SO3<S, AxisAngleRep>\<close> and \<open>SO3RotationVector<S>\<close> have the single data member
  \<open>mRepData\<close>; an object is modelled by the value of that member.

  The default constructors do nothing, and the member initialiser \<open>mRepData{RepData()}\<close>
  runs the default constructor of \<open>Eigen::AngleAxis\<close> or \<open>Eigen::Matrix\<close>, which leaves
  the coefficients uninitialised. The content of the storage before construction is the
  argument of the model, and it is what the object holds afterwards.
\<close>

definition SO3_AxisAngle_default :: "angle_axis \<Rightarrow> angle_axis" where
  "SO3_AxisAngle_default storage = storage"


definition SO3_AxisAngle_setIdentity :: "angle_axis \<Rightarrow> angle_axis" where
  "SO3_AxisAngle_setIdentity mRepData = mRepData\<lparr>angle := Fin 0\<rparr>"

definition SO3_AxisAngle_isIdentity :: "angle_axis \<Rightarrow> bool" where
  "SO3_AxisAngle_isIdentity mRepData \<longleftrightarrow> feq (angle mRepData) (Fin 0)"

definition SO3_AxisAngle_getInverse :: "angle_axis \<Rightarrow> angle_axis" where
  "SO3_AxisAngle_getInverse mRepData = \<lparr>angle = fneg (angle mRepData), axis = axis mRepData\<rparr>"

definition SO3RotationVector_default :: "vec3 \<Rightarrow> vec3" where
  "SO3RotationVector_default storage = storage"

definition SO3RotationVector_setIdentity :: "vec3 \<Rightarrow> vec3" where
  "SO3RotationVector_setIdentity mRepData = vec_Zero"

definition SO3RotationVector_isIdentity :: "vec3 \<Rightarrow> bool" where
  "SO3RotationVector_isIdentity mRepData \<longleftrightarrow> vec_eq mRepData vec_Zero"

definition SO3RotationVector_getInverse :: "vec3 \<Rightarrow> vec3" where
  "SO3RotationVector_getInverse mRepData = vec_neg mRepData"

section \<open>Properties\<close>

subsection \<open>Scalar arithmetic\<close>

lemma overflow_bound_gt: "2 ^ 1023 < overflow_bound"
  by (simp add: overflow_bound_def)

lemma overflow_bound_pos: "0 < overflow_bound"
  by (simp add: overflow_bound_def)

lemma underflow_bound_less: "underflow_bound < 1 / 2 ^ 1074" "0 < underflow_bound"
  by (simp_all add: underflow_bound_def)

lemma fl_0 [simp]: "fl 0 = Fin 0"
  using overflow_bound_pos by (simp add: fl_def underflow_bound_def)

lemma fl_Fin: "underflow_bound < \<bar>r\<bar> \<Longrightarrow> \<bar>r\<bar> < overflow_bound \<Longrightarrow> fl r = Fin r"
  by (auto simp: fl_def)

lemma fl_mid: "1 / 2 ^ 1074 \<le> \<bar>r\<bar> \<Longrightarrow> \<bar>r\<bar> \<le> 2 ^ 1023 \<Longrightarrow> fl r = Fin r"
  using overflow_bound_gt underflow_bound_less(1) by (intro fl_Fin) linarith+




lemma fl_idem: "fl r = Fin s \<Longrightarrow> fl s = Fin s"
  using overflow_bound_pos by (auto simp: fl_def split: if_splits)

lemma closed_fl [simp]: "closed (fl r)"
  by (cases "fl r") (auto dest: fl_idem)

lemma closed_fadd [simp]: "closed (fadd a b)"
  by (cases a; cases b) simp_all

lemma closed_fmul [simp]: "closed (fmul a b)"
  by (cases a; cases b) simp_all

lemma closed_fsub [simp]: "closed (fsub a b)"
  by (simp add: fsub_def)

lemma closed_fdiv [simp]: "closed (fdiv a b)"
  by (cases a; cases b) simp_all

lemma closed_fcos [simp]: "closed (fcos a)"
  by (cases a) simp_all







subsection \<open>Magnitudes\<close>




lemma nonneg_fl: "0 \<le> r \<Longrightarrow> nonneg (fl r)"
  using overflow_bound_pos by (auto simp: fl_def)





lemma nonneg_fmul_self: "nonneg (fmul (Fin x) (Fin x))"
  by (simp add: nonneg_fl)





subsection \<open>The exponential map\<close>









lemma fadd_NaN_right [simp]: "fadd a NaN = NaN"
  by (cases a) simp_all

lemma fmul_NaN_right [simp]: "fmul a NaN = NaN"
  by (cases a) simp_all

lemma fsub_NaN [simp]: "fsub a NaN = NaN" "fsub NaN a = NaN"
  by (simp_all add: fsub_def)






lemma fl_1 [simp]: "fl 1 = Fin 1"
  by (rule fl_mid) simp_all

lemma fl_half [simp]: "fl (1 / 2) = Fin (1 / 2)"
  by (rule fl_mid) simp_all

lemma exp_so3_zero:
  assumes "0 \<le> e"
  shows "exp_so3 (Fin e) (Vec3 (Fin 0) (Fin 0) (Fin 0)) = mat_Identity"
  using assms by (simp add: exp_so3_def mat_Identity_def fsub_def Let_def)









subsection \<open>Conversions\<close>

lemma fl_num: "1 / 2 ^ 64 \<le> \<bar>r\<bar> \<Longrightarrow> \<bar>r\<bar> \<le> 2 ^ 64 \<Longrightarrow> fl r = Fin r"
  by (rule fl_mid) (simp_all add: order_trans [of "1 / 2 ^ 1074" "1 / 2 ^ 64"] order_trans [of _ "2 ^ 64" "2 ^ 1023"])

lemma rep_convert_zero_vector:
  "rep_convert_RotationVector_AxisAngle (Vec3 (Fin 0) (Fin 0) (Fin 0)) =
     \<lparr>angle = Fin 0, axis = Vec3 (Fin 1) (Fin 0) (Fin 0)\<rparr>"
  by (simp add: rep_convert_RotationVector_AxisAngle_def norm3_def squaredNorm_def UnitX_def Let_def)

text \<open>
  C4. RotationVector to Quaternion has no specialisation of its own: the conversion of a
  rotation vector \<open>v\<close> is the primary template, that is the conversion to the canonical
  matrix, which is \<open>exp v\<close>, followed by the conversion from the canonical matrix to a
  quaternion. No other value is returned in place of that route.
\<close>

theorem vector_to_quaternion_two_hop:
  "rep_convert_specialised E QuaternionRep (VecData v) = None
   \<and> rep_convert_impl E eps QuaternionRep (VecData v) =
       rep_convert_from_canonical_impl E QuaternionRep
         (rep_convert_to_canonical_impl E eps (VecData v))
   \<and> rep_convert_to_canonical_impl E eps (VecData v) = exp_so3 eps v
   \<and> rep_convert_impl E eps QuaternionRep (VecData v) =
       QuatData (Quaternion_fromRotationMatrix E (exp_so3 eps v))"
  by (simp add: rep_convert_impl_def)

text \<open>
  C6. The direct conversion from AxisAngle to RotationVector returns the axis scaled by
  the angle: each component of the result is the product of the angle and the component
  of the axis, and it is the conversion that \<open>rep_convert_impl\<close> selects for that pair.
  The axis (0,0,1) with angle 2 converts to (0,0,2), the axis (1/2,-1,0) with angle 3 to
  (3/2,-3,0). The axis (1,0,0) with angle 0 converts to the vector (0,0,0), and converting
  that vector back gives the angle 0 with the default axis (1,0,0).
\<close>

theorem axis_angle_to_rotation_vector:
  "rep_convert_AxisAngle_RotationVector \<lparr>angle = Fin t, axis = Vec3 (Fin x) (Fin y) (Fin z)\<rparr>
     = Vec3 (fl (t * x)) (fl (t * y)) (fl (t * z))
   \<and> rep_convert_impl E eps RotationVectorRep (AaData a) =
       VecData (Vec3 (fmul (angle a) (vx (axis a))) (fmul (angle a) (vy (axis a)))
                  (fmul (angle a) (vz (axis a))))
   \<and> rep_convert_AxisAngle_RotationVector \<lparr>angle = Fin 2, axis = Vec3 (Fin 0) (Fin 0) (Fin 1)\<rparr>
     = Vec3 (Fin 0) (Fin 0) (Fin 2)
   \<and> rep_convert_AxisAngle_RotationVector
        \<lparr>angle = Fin 3, axis = Vec3 (Fin (1 / 2)) (Fin (- 1)) (Fin 0)\<rparr>
     = Vec3 (Fin (3 / 2)) (Fin (- 3)) (Fin 0)
   \<and> rep_convert_AxisAngle_RotationVector \<lparr>angle = Fin 0, axis = Vec3 (Fin 1) (Fin 0) (Fin 0)\<rparr>
     = Vec3 (Fin 0) (Fin 0) (Fin 0)
   \<and> rep_convert_RotationVector_AxisAngle (Vec3 (Fin 0) (Fin 0) (Fin 0))
     = \<lparr>angle = Fin 0, axis = Vec3 (Fin 1) (Fin 0) (Fin 0)\<rparr>
   \<and> rep_convert_impl E eps AxisAngleRep
        (rep_convert_impl E eps RotationVectorRep
           (AaData \<lparr>angle = Fin 0, axis = Vec3 (Fin 1) (Fin 0) (Fin 0)\<rparr>))
       = AaData \<lparr>angle = Fin 0, axis = Vec3 (Fin 1) (Fin 0) (Fin 0)\<rparr>"
  by (simp add: rep_convert_impl_def rep_convert_AxisAngle_RotationVector_def
      rep_convert_zero_vector vec_scale_def fl_num)

subsection \<open>Multiplication\<close>

lemma mat_mul_quarter_turns:
  "mat_mul (Mat3 (Fin 0) (Fin (- 1)) (Fin 0)  (Fin 1) (Fin 0) (Fin 0)  (Fin 0) (Fin 0) (Fin 1))
           (Mat3 (Fin 0) (Fin (- 1)) (Fin 0)  (Fin 1) (Fin 0) (Fin 0)  (Fin 0) (Fin 0) (Fin 1))
   = Mat3 (Fin (- 1)) (Fin 0) (Fin 0)  (Fin 0) (Fin (- 1)) (Fin 0)  (Fin 0) (Fin 0) (Fin 1)"
  by (simp add: mat_mul_def dot3_def fl_num)

text \<open>
  C7. For two operands in the RotationVector representation, with data \<open>a\<close> and \<open>b\<close>,
  the product goes through the canonical representation: both operands are converted to
  rotation matrices by \<open>exp\<close>, the matrices are multiplied, row by column, and the product
  is converted back by \<open>log\<close>, the angle times the axis that Eigen extracts from it.
  \<open>group_multiplication_impl\<close> computes the same value by its generic version. The
  other routine of the sources for this pair, \<open>rep_multiplication_impl\<close>, multiplies two
  quaternions and returns a quaternion; it is not this route.
\<close>

theorem rotation_vector_product_canonical:
  "SO3_multiply E eps (VecData a) (VecData b) =
     (let A = exp_so3 eps a; B = exp_so3 eps b;
          M = Mat3
            (fadd (fadd (fmul (m00 A) (m00 B)) (fmul (m01 A) (m10 B))) (fmul (m02 A) (m20 B)))
            (fadd (fadd (fmul (m00 A) (m01 B)) (fmul (m01 A) (m11 B))) (fmul (m02 A) (m21 B)))
            (fadd (fadd (fmul (m00 A) (m02 B)) (fmul (m01 A) (m12 B))) (fmul (m02 A) (m22 B)))
            (fadd (fadd (fmul (m10 A) (m00 B)) (fmul (m11 A) (m10 B))) (fmul (m12 A) (m20 B)))
            (fadd (fadd (fmul (m10 A) (m01 B)) (fmul (m11 A) (m11 B))) (fmul (m12 A) (m21 B)))
            (fadd (fadd (fmul (m10 A) (m02 B)) (fmul (m11 A) (m12 B))) (fmul (m12 A) (m22 B)))
            (fadd (fadd (fmul (m20 A) (m00 B)) (fmul (m21 A) (m10 B))) (fmul (m22 A) (m20 B)))
            (fadd (fadd (fmul (m20 A) (m01 B)) (fmul (m21 A) (m11 B))) (fmul (m22 A) (m21 B)))
            (fadd (fadd (fmul (m20 A) (m02 B)) (fmul (m21 A) (m12 B))) (fmul (m22 A) (m22 B)));
          aa = AngleAxis_fromRotationMatrix E M
      in VecData (Vec3 (fmul (angle aa) (vx (axis aa))) (fmul (angle aa) (vy (axis aa)))
                    (fmul (angle aa) (vz (axis aa)))))
   \<and> SO3_multiply E eps (VecData a) (VecData b) =
       VecData (log_so3 E (mat_mul (exp_so3 eps a) (exp_so3 eps b)))
   \<and> group_multiplication_impl E eps (VecData a) (VecData b) =
       SO3_multiply E eps (VecData a) (VecData b)
   \<and> rep_multiplication_impl_RotationVector E eps a b =
       Quaternion_product E (Quaternion_fromRotationMatrix E (exp_so3 eps a))
         (Quaternion_fromRotationMatrix E (exp_so3 eps b))
   \<and> mat_mul (Mat3 (Fin 0) (Fin (- 1)) (Fin 0)  (Fin 1) (Fin 0) (Fin 0)  (Fin 0) (Fin 0) (Fin 1))
              (Mat3 (Fin 0) (Fin (- 1)) (Fin 0)  (Fin 1) (Fin 0) (Fin 0)  (Fin 0) (Fin 0) (Fin 1))
       = Mat3 (Fin (- 1)) (Fin 0) (Fin 0)  (Fin 0) (Fin (- 1)) (Fin 0)  (Fin 0) (Fin 0) (Fin 1)"
  by (simp add: SO3_multiply_def group_multiplication_impl_def
      rep_canonical_multiplication_impl_def rep_multiplication_impl_RotationVector_def
      rep_convert_RotationVector_Quaternion_def log_so3_def vec_scale_def Let_def
      mat_mul_quarter_turns)
    (simp add: mat_mul_def dot3_def)

subsection \<open>Inversion\<close>

text \<open>
  The inverses are closed forms: the axis-angle inverse keeps the axis and negates the
  angle, the rotation-vector inverse negates the vector.
\<close>

lemma getInverse_closed_form:
  "SO3_AxisAngle_getInverse a = \<lparr>angle = fneg (angle a), axis = axis a\<rparr>
   \<and> SO3RotationVector_getInverse v = Vec3 (fneg (vx v)) (fneg (vy v)) (fneg (vz v))
   \<and> SO3_AxisAngle_getInverse \<lparr>angle = Fin 2, axis = Vec3 (Fin 0) (Fin 0) (Fin 1)\<rparr>
       = \<lparr>angle = Fin (- 2), axis = Vec3 (Fin 0) (Fin 0) (Fin 1)\<rparr>
   \<and> SO3RotationVector_getInverse (Vec3 (Fin 1) (Fin (- 2)) (Fin 0))
       = Vec3 (Fin (- 1)) (Fin 2) (Fin 0)"
  by (simp add: SO3_AxisAngle_getInverse_def SO3RotationVector_getInverse_def vec_neg_def)

subsection \<open>Approximate equality\<close>

text \<open>
  C9. \<open>isApprox\<close> compares the raw data of the two operands directly, within the
  tolerance, when they have the same representation (matrix with matrix, axis-angle with
  axis-angle, quaternion with quaternion, vector with vector); when the representations
  differ it converts both operands to the canonical matrix and compares the matrices
  within the tolerance.
\<close>

theorem is_approx_dispatch:
  "group_is_approx_impl E eps (MatData ma) (MatData mb) tol = mat_isApprox ma mb tol
   \<and> group_is_approx_impl E eps (AaData aa) (AaData ab) tol = aa_isApprox aa ab tol
   \<and> group_is_approx_impl E eps (QuatData qa) (QuatData qb) tol = quat_isApprox qa qb tol
   \<and> group_is_approx_impl E eps (VecData va) (VecData vb) tol = vec_isApprox va vb tol
   \<and> (rep_of A \<noteq> rep_of B \<longrightarrow>
        group_is_approx_impl E eps A B tol =
          mat_isApprox (rep_convert_to_canonical_impl E eps A)
                       (rep_convert_to_canonical_impl E eps B) tol)"
  by (cases A; cases B) (simp_all add: group_is_approx_impl_def)

theorem is_approx_dispatch_witness:
  "rep_of (VecData (Vec3 (Fin 0) (Fin 0) (Fin 0)))
     \<noteq> rep_of (MatData (Mat3 (Fin 1) (Fin 0) (Fin 0)  (Fin 0) (Fin 1) (Fin 0)  (Fin 0) (Fin 0) (Fin 1)))
   \<and> (\<forall>E. group_is_approx_impl E (Fin (1 / 1000000)) (VecData (Vec3 (Fin 0) (Fin 0) (Fin 0)))
             (MatData (Mat3 (Fin 1) (Fin 0) (Fin 0)  (Fin 0) (Fin 1) (Fin 0)  (Fin 0) (Fin 0) (Fin 1)))
             (Fin (1 / 1000)))
   \<and> (\<forall>E. \<not> group_is_approx_impl E (Fin (1 / 1000000)) (VecData (Vec3 (Fin 0) (Fin 0) (Fin 0)))
             (MatData (Mat3 (Fin 2) (Fin 0) (Fin 0)  (Fin 0) (Fin 2) (Fin 0)  (Fin 0) (Fin 0) (Fin 2)))
             (Fin (1 / 1000)))"
proof -
  have d: "rep_of (VecData (Vec3 (Fin 0) (Fin 0) (Fin 0))) \<noteq> rep_of (MatData m)" for m
    by simp
  have e: "exp_so3 (Fin (1 / 1000000)) (Vec3 (Fin 0) (Fin 0) (Fin 0)) =
      Mat3 (Fin 1) (Fin 0) (Fin 0)  (Fin 0) (Fin 1) (Fin 0)  (Fin 0) (Fin 0) (Fin 1)"
    using exp_so3_zero [of "1 / 1000000"] by (simp add: mat_Identity_def)
  have "group_is_approx_impl E (Fin (1 / 1000000)) (VecData (Vec3 (Fin 0) (Fin 0) (Fin 0)))
          (MatData m) (Fin (1 / 1000))
        = mat_isApprox (Mat3 (Fin 1) (Fin 0) (Fin 0)  (Fin 0) (Fin 1) (Fin 0)  (Fin 0) (Fin 0) (Fin 1))
            m (Fin (1 / 1000))" for E m
    using is_approx_dispatch [of E "Fin (1 / 1000000)" _ _ "Fin (1 / 1000)" _ _ _ _ _ _
        "VecData (Vec3 (Fin 0) (Fin 0) (Fin 0))" "MatData m"] d e
    by simp
  then show ?thesis
    by (simp add: mat_isApprox_def mat_squaredNorm_def mat_sub_def fsub_def fle_def fmin_def
        fl_num)
qed

subsection \<open>Construction\<close>

text \<open>
  C3, as the code has it. The default constructor initialises nothing: the object holds
  what its storage held. The identity is obtained by \<open>setIdentity\<close>, after which
  \<open>isIdentity\<close> holds: for axis-angle the angle is 0 and the axis is unchanged, for a
  rotation vector the data is the zero vector.
\<close>

theorem default_constructed_then_setIdentity:
  "SO3_AxisAngle_default s = s
   \<and> SO3_AxisAngle_isIdentity (SO3_AxisAngle_setIdentity (SO3_AxisAngle_default s))
   \<and> SO3_AxisAngle_setIdentity (SO3_AxisAngle_default s) = \<lparr>angle = Fin 0, axis = axis s\<rparr>
   \<and> SO3RotationVector_default t = t
   \<and> SO3RotationVector_isIdentity (SO3RotationVector_setIdentity (SO3RotationVector_default t))
   \<and> SO3RotationVector_setIdentity (SO3RotationVector_default t) = Vec3 (Fin 0) (Fin 0) (Fin 0)"
  by (simp add: SO3_AxisAngle_isIdentity_def SO3_AxisAngle_default_def
      SO3_AxisAngle_setIdentity_def SO3RotationVector_isIdentity_def
      SO3RotationVector_default_def SO3RotationVector_setIdentity_def vec_Zero_def vec_eq_def)

text \<open>
  A default-constructed orientation need not be the identity: the storage may hold the
  angle 1, or a nonzero vector.
\<close>

theorem default_constructed_not_identity:
  "\<not> SO3_AxisAngle_isIdentity
       (SO3_AxisAngle_default \<lparr>angle = Fin 1, axis = Vec3 (Fin 1) (Fin 0) (Fin 0)\<rparr>)
   \<and> \<not> SO3RotationVector_isIdentity (SO3RotationVector_default (Vec3 (Fin 0) (Fin 0) (Fin 1)))"
  by (simp add: SO3_AxisAngle_isIdentity_def SO3_AxisAngle_default_def
      SO3RotationVector_isIdentity_def SO3RotationVector_default_def vec_Zero_def vec_eq_def)

subsection \<open>Vectors inside the band\<close>















subsection \<open>From a rotation vector to an axis and an angle\<close>






subsection \<open>Comparison at precision zero\<close>


lemma at_least_tiny_nonneg: "at_least_tiny a \<Longrightarrow> nonneg a"
  by (cases a) (auto intro: order_trans [of 0 "1 / 2 ^ 1074"])














subsection \<open>Exact equality of axis-angle orientations\<close>






end
